theory Spec2Isabelle
  imports Main "HOL-Library.Word"
begin

section \<open>DockOps update checker: data model\<close>

text \<open>
  The Go structs of \<^verbatim>\<open>main.go\<close> become records. \<^verbatim>\<open>time.Duration\<close> is a signed
  64-bit count of nanoseconds, so it is a 64-bit word: \<open>*\<close> wraps as Go's does and
  \<open>sint\<close> reads the signed value. \<^verbatim>\<open>MaxRetries\<close> is a Go \<^verbatim>\<open>int\<close>; the program only
  compares it with the loop counter, and computes \<^verbatim>\<open>MaxRetries-1\<close> only inside
  the loop, where \<^verbatim>\<open>0 <= i < MaxRetries\<close>, so no operation on it can overflow and
  it is modelled as an \<open>int\<close>.
\<close>

type_synonym duration = "64 word"

record ImageInfo =
  Registry :: string
  Repo :: string
  Tag :: string

record Config =
  GCRAccessToken :: string
  RateLimit :: duration
  MaxRetries :: int
  RetryDelay :: duration

text \<open>
  Every \<^verbatim>\<open>fmt.Errorf\<close> of the program is one constructor; an error of a library
  (\<^verbatim>\<open>net/http\<close>, \<^verbatim>\<open>encoding/json\<close>, \<^verbatim>\<open>semver\<close>) is carried as its message.
\<close>

datatype error =
    ErrInvalidImageName
  | ErrInvalidTagFormat
  | ErrCreateRequest string
  | ErrTokenNotSet
  | ErrMaxRetriesFetch string
  | ErrMaxRetriesStatus int
  | ErrDecode string
  | ErrGettingRemoteTags error
  | ErrParsingCurrentVersion string

text \<open>
  A Go function returning \<^verbatim>\<open>(T, error)\<close> returns a value or an error; a nil pointer
  dereference is a run-time panic, which no function of the program recovers.
\<close>

datatype 'a result = Return 'a | Error error | Panic

subsection \<open>Formatting\<close>

fun show_nat :: "nat \<Rightarrow> string" where
  "show_nat n =
     (if n < 10 then [''0123456789'' ! n]
      else show_nat (n div 10) @ [''0123456789'' ! (n mod 10)])"

declare show_nat.simps [simp del]

definition show_int :: "int \<Rightarrow> string" where
  \<comment> \<open>the verb \<^verbatim>\<open>%d\<close>\<close>
  "show_int i = (if i < 0 then ''-'' @ show_nat (nat (- i)) else show_nat (nat i))"

fun error_message :: "error \<Rightarrow> string" where
  "error_message ErrInvalidImageName = ''invalid image name format''"
| "error_message ErrInvalidTagFormat = ''invalid tag format''"
| "error_message (ErrCreateRequest e) = ''error creating HTTP request: '' @ e"
| "error_message ErrTokenNotSet = ''GCR_ACCESS_TOKEN not set in config''"
| "error_message (ErrMaxRetriesFetch e) =
     ''max retries exceeded: error fetching tags: '' @ e"
| "error_message (ErrMaxRetriesStatus c) =
     ''max retries exceeded: unexpected status code: '' @ show_int c"
| "error_message (ErrDecode e) = ''error decoding JSON response: '' @ e"
| "error_message (ErrGettingRemoteTags e) =
     ''error getting remote tags: '' @ error_message e"
| "error_message (ErrParsingCurrentVersion e) =
     ''error parsing current version: '' @ e"

subsection \<open>The string functions the program calls\<close>

text \<open>
  \<^verbatim>\<open>strings.Split(s, sep)\<close> for a separator of one byte, which is how the program
  calls it (\<^verbatim>\<open>"/"\<close>, \<^verbatim>\<open>":"\<close>): the pieces between the separators, one more than
  there are separators, so never an empty list.
\<close>

fun strings_Split :: "string \<Rightarrow> char \<Rightarrow> string list" where
  "strings_Split [] sep = [[]]"
| "strings_Split (c # cs) sep =
     (if c = sep then [] # strings_Split cs sep
      else (case strings_Split cs sep of
              [] \<Rightarrow> [[c]]
            | p # ps \<Rightarrow> (c # p) # ps))"

fun strings_Join :: "string list \<Rightarrow> string \<Rightarrow> string" where
  "strings_Join [] sep = []"
| "strings_Join [x] sep = x"
| "strings_Join (x # y # ys) sep = x @ sep @ strings_Join (y # ys) sep"

definition slice :: "'a list \<Rightarrow> nat \<Rightarrow> nat \<Rightarrow> 'a list" where
  \<comment> \<open>\<^verbatim>\<open>xs[lo:hi]\<close>; Go panics unless \<open>lo \<le> hi \<le> length xs\<close>, which the one
      caller guarantees by its length check\<close>
  "slice xs lo hi = take (hi - lo) (drop lo xs)"

section \<open>Parsing image names\<close>

definition parseImageName :: "string \<Rightarrow> ImageInfo result" where
  "parseImageName name =
     (let parts = strings_Split name CHR ''/'' in
      if length parts < 2 then Error ErrInvalidImageName
      else
        let registry = parts ! 0;
            repo = strings_Join (slice parts 1 (length parts - 1)) ''/'';
            tagParts = strings_Split (parts ! (length parts - 1)) CHR '':'' in
        if length tagParts \<noteq> 2 then Error ErrInvalidTagFormat
        else
          let repo = repo @ ''/'' @ tagParts ! 0;
              tag = tagParts ! 1 in
          Return \<lparr>Registry = registry, Repo = repo, Tag = tag\<rparr>)"

text \<open>What the program writes with \<^verbatim>\<open>log.Printf\<close>.\<close>

datatype log_entry =
    LogParseError string error
    \<comment> \<open>\<^verbatim>\<open>Error parsing image name %s: %v\<close>\<close>
  | LogRetry int duration "string option"
    \<comment> \<open>\<^verbatim>\<open>Retry %d: Error fetching tags, retrying in %s: %v\<close>; the last field is
        \<^verbatim>\<open>err\<close>, nil when the attempt got a response with a status other than 200\<close>
  | LogCheckError string error
    \<comment> \<open>\<^verbatim>\<open>Error checking for updates for %s: %v\<close>\<close>

text \<open>
  The loop of \<^verbatim>\<open>getLocalImages\<close> over the lines of the image lister's output: the
  images parsed so far and the log lines written so far are the state.
\<close>

fun parse_lines :: "string list \<Rightarrow> ImageInfo list \<Rightarrow> log_entry list
    \<Rightarrow> ImageInfo list \<times> log_entry list" where
  "parse_lines [] images lg = (images, lg)"
| "parse_lines (line # lines) images lg =
     (case parseImageName line of
        Return img \<Rightarrow> parse_lines lines (images @ [img]) lg
      | Error err \<Rightarrow> parse_lines lines images (lg @ [LogParseError line err])
      | Panic \<Rightarrow> parse_lines lines images lg)"

section \<open>The world outside the program\<close>

text \<open>
  The HTTP client, the JSON decoder and \<^verbatim>\<open>strings.TrimSpace\<close> are library code; the
  model takes them as parameters. \<open>NewRequestWithContext\<close> gives the error of
  \<^verbatim>\<open>http.NewRequestWithContext\<close> for a URL, if any. \<open>ClientDo n req\<close> is what
  \<^verbatim>\<open>client.Do\<close> returns for \<open>req\<close> when \<open>n\<close> requests were issued before it: an error
  (also the 30 second timeout of the request's context) or a response.
  \<open>JsonDecode\<close> reads the \<^verbatim>\<open>tags\<close> field of a response body.
\<close>

record request =
  URL :: string
  Authorization :: "string option"

record response =
  StatusCode :: int
  Body :: string

record net =
  NewRequestWithContext :: "string \<Rightarrow> string option"
  ClientDo :: "nat \<Rightarrow> request \<Rightarrow> string + response"
  JsonDecode :: "string \<Rightarrow> string + string list"
  TrimSpace :: "string \<Rightarrow> string"

text \<open>
  Everything the program changes or does to the outside: the tag cache (the Go map
  shared by all checks), the requests sent, the sleeps taken, the log, the ticks
  received from the rate limiter's channel and the strings sent to the results channel.
\<close>

record world =
  cache :: "string \<rightharpoonup> string list"
  requests :: "request list"
  sleeps :: "duration list"
  logs :: "log_entry list"
  ticks :: nat
  results :: "string list"

section \<open>Fetching the remote tags\<close>

definition tags_url :: "string \<Rightarrow> string \<Rightarrow> string" where
  \<comment> \<open>\<^verbatim>\<open>fmt.Sprintf("%s/repositories/%s/tags/?page_size=1000", registry, repo)\<close>\<close>
  "tags_url registry repo = registry @ ''/repositories/'' @ repo @ ''/tags/?page_size=1000''"

definition build_request :: "net \<Rightarrow> Config \<Rightarrow> string \<Rightarrow> string \<Rightarrow> string \<Rightarrow> request" where
  \<comment> \<open>the GET request of one attempt, with the bearer header set for \<^verbatim>\<open>"gcloud"\<close>\<close>
  "build_request nt cfg registry repo authMethod =
     \<lparr>URL = tags_url registry repo,
      Authorization =
        (if authMethod = ''gcloud''
         then Some (''Bearer '' @ TrimSpace nt (GCRAccessToken cfg))
         else None)\<rparr>"

text \<open>
  How the retry loop of \<^verbatim>\<open>getRemoteTags\<close> is left: by a \<^verbatim>\<open>return\<close> with an error,
  or by \<^verbatim>\<open>break\<close> or a false loop condition, with the variable \<^verbatim>\<open>resp\<close> as it is then
  (\<open>None\<close> is Go's nil).
\<close>

datatype loop_exit = LoopReturn error | LoopDone "response option"

function retry_loop :: "net \<Rightarrow> Config \<Rightarrow> string \<Rightarrow> string \<Rightarrow> string \<Rightarrow> int \<Rightarrow> duration
    \<Rightarrow> response option \<Rightarrow> world \<Rightarrow> loop_exit \<times> world" where
  "retry_loop nt cfg registry repo authMethod i retryDelay resp w =
     (if \<not> i < MaxRetries cfg then (LoopDone resp, w)
      else
        (case NewRequestWithContext nt (tags_url registry repo) of
           Some e \<Rightarrow> (LoopReturn (ErrCreateRequest e), w)
         | None \<Rightarrow>
             if authMethod = ''gcloud'' \<and> GCRAccessToken cfg = ''''
             then (LoopReturn ErrTokenNotSet, w)
             else
               let req = build_request nt cfg registry repo authMethod;
                   w1 = w\<lparr>requests := requests w @ [req]\<rparr>
               in
                 (case ClientDo nt (length (requests w)) req of
                    Inr r \<Rightarrow>
                      if StatusCode r = 200 then (LoopDone (Some r), w1)
                      else if i < MaxRetries cfg - 1 then
                        retry_loop nt cfg registry repo authMethod (i + 1) (retryDelay * 2)
                          (Some r)
                          (w1\<lparr>logs := logs w1 @ [LogRetry (i + 1) retryDelay None],
                              sleeps := sleeps w1 @ [retryDelay]\<rparr>)
                      else (LoopReturn (ErrMaxRetriesStatus (StatusCode r)), w1)
                  | Inl e \<Rightarrow>
                      if i < MaxRetries cfg - 1 then
                        retry_loop nt cfg registry repo authMethod (i + 1) (retryDelay * 2)
                          None
                          (w1\<lparr>logs := logs w1 @ [LogRetry (i + 1) retryDelay (Some e)],
                              sleeps := sleeps w1 @ [retryDelay]\<rparr>)
                      else (LoopReturn (ErrMaxRetriesFetch e), w1))))"
  by pat_completeness auto
termination
  by (relation "measure (\<lambda>(nt, cfg, registry, repo, authMethod, i, retryDelay, resp, w).
        nat (MaxRetries cfg - i))") auto

declare retry_loop.simps [simp del]

text \<open>
  The part of \<^verbatim>\<open>getRemoteTags\<close> after a cache miss (lines 161 to 210): the retry
  loop, the dereference of \<^verbatim>\<open>resp\<close>, the decoding and the write to the cache.
\<close>

definition fetch_and_store :: "net \<Rightarrow> Config \<Rightarrow> string \<Rightarrow> string \<Rightarrow> string \<Rightarrow> world
    \<Rightarrow> string list result \<times> world" where
  "fetch_and_store nt cfg registry repo authMethod w =
     (case retry_loop nt cfg registry repo authMethod 0 (RetryDelay cfg) None w of
        (LoopReturn e, w1) \<Rightarrow> (Error e, w1)
      | (LoopDone None, w1) \<Rightarrow> (Panic, w1)
      | (LoopDone (Some r), w1) \<Rightarrow>
          (case JsonDecode nt (Body r) of
             Inl e \<Rightarrow> (Error (ErrDecode e), w1)
           | Inr tags \<Rightarrow>
               (Return tags, w1\<lparr>cache := (cache w1)(registry @ ''/'' @ repo \<mapsto> tags)\<rparr>)))"

definition getRemoteTags :: "net \<Rightarrow> Config \<Rightarrow> string \<Rightarrow> string \<Rightarrow> string \<Rightarrow> world
    \<Rightarrow> string list result \<times> world" where
  "getRemoteTags nt cfg registry repo authMethod w =
     (case cache w (registry @ ''/'' @ repo) of
        Some cachedTags \<Rightarrow> (Return cachedTags, w)
      | None \<Rightarrow> fetch_and_store nt cfg registry repo authMethod w)"

section \<open>Checking one image\<close>

text \<open>
  The semantic-version library (\<^verbatim>\<open>github.com/Masterminds/semver\<close>) is a parameter
  as well: its parser, its \<^verbatim>\<open>GreaterThan\<close> and the \<^verbatim>\<open>String\<close> method that \<^verbatim>\<open>%s\<close>
  calls, over any type \<open>'v\<close> of parsed versions.
\<close>

record 'v semver =
  NewVersion :: "string \<Rightarrow> string + 'v"
  GreaterThan :: "'v \<Rightarrow> 'v \<Rightarrow> bool"
  VersionString :: "'v \<Rightarrow> string"

text \<open>The loop over the remote tags, with the variable \<^verbatim>\<open>latestVer\<close> as its state.\<close>

fun latest_loop :: "'v semver \<Rightarrow> string list \<Rightarrow> 'v option \<Rightarrow> 'v option" where
  "latest_loop sv [] latestVer = latestVer"
| "latest_loop sv (tag # tags) latestVer =
     (case NewVersion sv tag of
        Inr v \<Rightarrow>
          (case latestVer of
             None \<Rightarrow> latest_loop sv tags (Some v)
           | Some l \<Rightarrow>
               if GreaterThan sv v l then latest_loop sv tags (Some v)
               else latest_loop sv tags latestVer)
      | Inl err \<Rightarrow> latest_loop sv tags latestVer)"

definition update_message :: "string \<Rightarrow> string \<Rightarrow> string \<Rightarrow> string" where
  \<comment> \<open>\<^verbatim>\<open>fmt.Sprintf("Update available for %s: %s -> %s", ...)\<close>\<close>
  "update_message repo current latest =
     ''Update available for '' @ repo @ '': '' @ current @ '' -> '' @ latest"

definition checkForUpdates :: "net \<Rightarrow> 'v semver \<Rightarrow> Config \<Rightarrow> ImageInfo \<Rightarrow> world
    \<Rightarrow> string result \<times> world" where
  "checkForUpdates nt sv cfg img w =
     (case getRemoteTags nt cfg (Registry img) (Repo img) ''gcloud'' w of
        (Error err, w1) \<Rightarrow> (Error (ErrGettingRemoteTags err), w1)
      | (Panic, w1) \<Rightarrow> (Panic, w1)
      | (Return remoteTags, w1) \<Rightarrow>
          (case NewVersion sv (Tag img) of
             Inl err \<Rightarrow> (Error (ErrParsingCurrentVersion err), w1)
           | Inr currentVer \<Rightarrow>
               (case latest_loop sv remoteTags None of
                  Some latestVer \<Rightarrow>
                    if GreaterThan sv latestVer currentVer
                    then (Return (update_message (Repo img) (VersionString sv currentVer)
                                    (VersionString sv latestVer)), w1)
                    else (Return '''', w1)
                | None \<Rightarrow> (Return '''', w1))))"

section \<open>The orchestrator\<close>

text \<open>
  The body of the goroutine that \<^verbatim>\<open>main\<close> starts for each image: it receives one
  tick from the rate limiter's channel, runs the check, and logs the error or sends a
  non-empty result. A panic in it ends the whole process (\<open>Crashed\<close>).
\<close>

datatype status = Finished | Crashed

definition check_task :: "net \<Rightarrow> 'v semver \<Rightarrow> Config \<Rightarrow> ImageInfo \<Rightarrow> world
    \<Rightarrow> status \<times> world" where
  "check_task nt sv cfg img w =
     (case checkForUpdates nt sv cfg img (w\<lparr>ticks := ticks w + 1\<rparr>) of
        (Error err, w1) \<Rightarrow> (Finished, w1\<lparr>logs := logs w1 @ [LogCheckError (Repo img) err]\<rparr>)
      | (Return update, w1) \<Rightarrow>
          if update \<noteq> '''' then (Finished, w1\<lparr>results := results w1 @ [update]\<rparr>)
          else (Finished, w1)
      | (Panic, w1) \<Rightarrow> (Crashed, w1))"

text \<open>The defaults that \<^verbatim>\<open>loadConfig\<close> sets after reading the file.\<close>

definition set_defaults :: "Config \<Rightarrow> Config" where
  "set_defaults c =
     (let c1 = (if RateLimit c = 0 then c\<lparr>RateLimit := 100000000\<rparr> else c);
          c2 = (if MaxRetries c1 = 0 then c1\<lparr>MaxRetries := 3\<rparr> else c1);
          c3 = (if RetryDelay c2 = 0 then c2\<lparr>RetryDelay := 1000000000\<rparr> else c2)
      in c3)"

section \<open>Notions the claims are stated with\<close>

text \<open>
  An attempt fails, and is retried, unless \<^verbatim>\<open>err == nil && resp.StatusCode == 200\<close>;
  \<open>last_failure\<close> is the error the last failed attempt is reported with.
\<close>

definition attempt_fails :: "string + response \<Rightarrow> bool" where
  "attempt_fails r = (case r of Inl e \<Rightarrow> True | Inr rsp \<Rightarrow> StatusCode rsp \<noteq> 200)"

definition last_failure :: "string + response \<Rightarrow> error" where
  "last_failure r =
     (case r of
        Inl e \<Rightarrow> ErrMaxRetriesFetch e
      | Inr rsp \<Rightarrow> ErrMaxRetriesStatus (StatusCode rsp))"


text \<open>
  Two checks of one key that run at once. The goroutines share nothing but the cache,
  and \<^verbatim>\<open>getRemoteTags\<close> touches it twice: in the lookup of lines 156 to 159 and, after
  a miss, in the write of line 209. \<open>continue_after_lookup\<close> is \<^verbatim>\<open>getRemoteTags\<close> from
  the point where the lookup has given \<open>found\<close>. In the schedule \<open>both_look_up_first\<close>
  both goroutines do their lookup before either goes on; then the first runs to its
  end, then the second.
\<close>

definition continue_after_lookup :: "net \<Rightarrow> Config \<Rightarrow> string \<Rightarrow> string \<Rightarrow> string
    \<Rightarrow> string list option \<Rightarrow> world \<Rightarrow> string list result \<times> world" where
  "continue_after_lookup nt cfg registry repo authMethod found w =
     (case found of
        Some cachedTags \<Rightarrow> (Return cachedTags, w)
      | None \<Rightarrow> fetch_and_store nt cfg registry repo authMethod w)"






section \<open>Example inputs\<close>

definition empty_world :: world where
  "empty_world =
     \<lparr>cache = Map.empty, requests = [], sleeps = [], logs = [], ticks = 0, results = []\<rparr>"

definition default_config :: Config where
  \<comment> \<open>a token and the defaults of \<^verbatim>\<open>loadConfig\<close>: 100 ms, 3 attempts, 1 s\<close>
  "default_config =
     \<lparr>GCRAccessToken = ''tok'', RateLimit = 100000000, MaxRetries = 3,
      RetryDelay = 1000000000\<rparr>"

definition tags_body :: "string \<Rightarrow> string + string list" where
  \<comment> \<open>a decoder that knows one body\<close>
  "tags_body b =
     (if b = ''{tags:[1.0.0,1.0.1,abc]}'' then Inr [''1.0.0'', ''1.0.1'', ''abc'']
      else Inl ''invalid character'')"

definition net_down :: net where
  \<comment> \<open>every request times out\<close>
  "net_down =
     \<lparr>NewRequestWithContext = (\<lambda>u. None),
      ClientDo = (\<lambda>n req. Inl ''context deadline exceeded''),
      JsonDecode = tags_body, TrimSpace = (\<lambda>s. s)\<rparr>"

definition net_up :: net where
  \<comment> \<open>every request is answered with status 200 and the tag list\<close>
  "net_up =
     \<lparr>NewRequestWithContext = (\<lambda>u. None),
      ClientDo = (\<lambda>n req. Inr \<lparr>StatusCode = 200,
                                Body = ''{tags:[1.0.0,1.0.1,abc]}''\<rparr>),
      JsonDecode = tags_body, TrimSpace = (\<lambda>s. s)\<rparr>"


definition net_bad_url :: net where
  \<comment> \<open>\<^verbatim>\<open>net/url\<close> refuses a URL with no scheme whose first path segment holds a colon:
      a host that starts with a digit and carries a port\<close>
  "net_bad_url =
     \<lparr>NewRequestWithContext = (\<lambda>u.
         if u \<noteq> [] \<and> hd u \<in> set ''0123456789'' \<and>
            CHR '':'' \<in> set (takeWhile (\<lambda>c. c \<noteq> CHR ''/'') u)
         then Some ''first path segment in URL cannot contain colon''
         else None),
      ClientDo = (\<lambda>n req. Inl ''context deadline exceeded''),
      JsonDecode = tags_body, TrimSpace = (\<lambda>s. s)\<rparr>"

text \<open>
  A stand-in for the version library on three tags: versions are triples compared
  lexicographically.
\<close>

definition triple_gt :: "nat \<times> nat \<times> nat \<Rightarrow> nat \<times> nat \<times> nat \<Rightarrow> bool" where
  "triple_gt a b =
     (fst a > fst b \<or>
      (fst a = fst b \<and>
        (fst (snd a) > fst (snd b) \<or>
         (fst (snd a) = fst (snd b) \<and> snd (snd a) > snd (snd b)))))"

definition small_semver :: "(nat \<times> nat \<times> nat) semver" where
  "small_semver =
     \<lparr>NewVersion = (\<lambda>s.
         if s = ''1.0.0'' then Inr (1, 0, 0)
         else if s = ''1.0.1'' then Inr (1, 0, 1)
         else if s = ''0.9.0'' then Inr (0, 9, 0)
         else Inl ''Invalid Semantic Version''),
      GreaterThan = triple_gt,
      VersionString = (\<lambda>v. show_nat (fst v) @ ''.'' @ show_nat (fst (snd v)) @ ''.''
                            @ show_nat (snd (snd v)))\<rparr>"

definition app_image :: "string \<Rightarrow> ImageInfo" where
  "app_image tag = \<lparr>Registry = ''gcr.io'', Repo = ''proj/app'', Tag = tag\<rparr>"


definition app_request :: request where
  \<comment> \<open>the request that \<open>default_config\<close> sends for \<^verbatim>\<open>gcr.io/proj/app\<close>\<close>
  "app_request =
     \<lparr>URL = ''gcr.io/repositories/proj/app/tags/?page_size=1000'',
      Authorization = Some ''Bearer tok''\<rparr>"

section \<open>Lemmas about the retry loop\<close>

lemma retry_loop_frame:
  "cache (snd (retry_loop nt cfg registry repo authMethod i d resp w)) = cache w \<and>
   ticks (snd (retry_loop nt cfg registry repo authMethod i d resp w)) = ticks w \<and>
   results (snd (retry_loop nt cfg registry repo authMethod i d resp w)) = results w"
proof (induction nt cfg registry repo authMethod i d resp w rule: retry_loop.induct)
  case (1 nt cfg registry repo authMethod i retryDelay resp w)
  show ?case
    apply (subst (1 2 3) retry_loop.simps)
    using 1
    by (auto simp: Let_def split: option.splits sum.splits)
qed

lemma retry_loop_not_entered:
  "\<not> i < MaxRetries cfg \<Longrightarrow>
   retry_loop nt cfg registry repo authMethod i d resp w = (LoopDone resp, w)"
  by (subst retry_loop.simps) simp

lemma retry_loop_resp_not_nil:
  "i < MaxRetries cfg \<Longrightarrow>
   fst (retry_loop nt cfg registry repo authMethod i d resp w) \<noteq> LoopDone None"
proof (induction nt cfg registry repo authMethod i d resp w rule: retry_loop.induct)
  case (1 nt cfg registry repo authMethod i retryDelay resp w)
  show ?case
    apply (subst retry_loop.simps)
    using 1
    by (auto simp: Let_def split: option.splits sum.splits)
qed

lemma retry_loop_no_token:
  assumes "GCRAccessToken cfg = ''''" and "i < MaxRetries cfg"
  shows "retry_loop nt cfg registry repo ''gcloud'' i d resp w =
     ((case NewRequestWithContext nt (tags_url registry repo) of
         None \<Rightarrow> LoopReturn ErrTokenNotSet
       | Some e \<Rightarrow> LoopReturn (ErrCreateRequest e)), w)"
  apply (subst retry_loop.simps)
  using assms by (simp split: option.splits)

text \<open>
  One iteration that fails with iterations left: the loop goes on with the next index,
  the doubled delay, one more request, one more sleep.
\<close>

lemma retry_loop_step:
  assumes "i < MaxRetries cfg - 1"
    and "NewRequestWithContext nt (tags_url registry repo) = None"
    and "\<not> (authMethod = ''gcloud'' \<and> GCRAccessToken cfg = '''')"
    and "attempt_fails (ClientDo nt (length (requests w))
           (build_request nt cfg registry repo authMethod))"
  shows "\<exists>resp' w'. retry_loop nt cfg registry repo authMethod i d resp w =
            retry_loop nt cfg registry repo authMethod (i + 1) (d * 2) resp' w' \<and>
          requests w' = requests w @ [build_request nt cfg registry repo authMethod] \<and>
          sleeps w' = sleeps w @ [d]"
proof (cases "ClientDo nt (length (requests w)) (build_request nt cfg registry repo authMethod)")
  case (Inl e)
  let ?req = "build_request nt cfg registry repo authMethod"
  let ?w' = "w\<lparr>requests := requests w @ [?req],
               logs := logs w @ [LogRetry (i + 1) d (Some e)],
               sleeps := sleeps w @ [d]\<rparr>"
  have "retry_loop nt cfg registry repo authMethod i d resp w =
        retry_loop nt cfg registry repo authMethod (i + 1) (d * 2) None ?w'"
    apply (subst retry_loop.simps)
    using assms Inl by (auto simp: Let_def)
  moreover have "requests ?w' = requests w @ [?req]" "sleeps ?w' = sleeps w @ [d]" by simp_all
  ultimately show ?thesis by blast
next
  case (Inr r)
  let ?req = "build_request nt cfg registry repo authMethod"
  from Inr assms(4) have ne: "StatusCode r \<noteq> 200" by (simp add: attempt_fails_def)
  let ?w' = "w\<lparr>requests := requests w @ [?req],
               logs := logs w @ [LogRetry (i + 1) d None],
               sleeps := sleeps w @ [d]\<rparr>"
  have "retry_loop nt cfg registry repo authMethod i d resp w =
        retry_loop nt cfg registry repo authMethod (i + 1) (d * 2) (Some r) ?w'"
    apply (subst retry_loop.simps)
    using assms Inr ne by (auto simp: Let_def)
  moreover have "requests ?w' = requests w @ [?req]" "sleeps ?w' = sleeps w @ [d]" by simp_all
  ultimately show ?thesis by blast
qed

text \<open>
  One iteration that is the last one or succeeds: the loop is left after this request.
\<close>

lemma retry_loop_last:
  assumes "i < MaxRetries cfg"
    and "NewRequestWithContext nt (tags_url registry repo) = None"
    and "\<not> (authMethod = ''gcloud'' \<and> GCRAccessToken cfg = '''')"
    and "\<not> (attempt_fails (ClientDo nt (length (requests w))
             (build_request nt cfg registry repo authMethod)) \<and> i < MaxRetries cfg - 1)"
  shows "retry_loop nt cfg registry repo authMethod i d resp w =
     ((case ClientDo nt (length (requests w)) (build_request nt cfg registry repo authMethod) of
         Inr r \<Rightarrow> if StatusCode r = 200 then LoopDone (Some r)
                  else LoopReturn (ErrMaxRetriesStatus (StatusCode r))
       | Inl e \<Rightarrow> LoopReturn (ErrMaxRetriesFetch e)),
      w\<lparr>requests := requests w @ [build_request nt cfg registry repo authMethod]\<rparr>)"
  apply (subst retry_loop.simps)
  using assms by (auto simp: Let_def attempt_fails_def split: sum.splits)



lemma delays_shift:
  "(d::duration) # map (\<lambda>k. d * 2 * 2 ^ k) [0..<m] = map (\<lambda>k. d * 2 ^ k) [0..<Suc m]"
proof -
  have "[0..<Suc m] = 0 # map Suc [0..<m]"
    by (simp add: map_Suc_upt upt_conv_Cons del: upt_Suc)
  then show ?thesis
    by (simp add: comp_def mult.assoc del: upt_Suc)
qed

lemma retry_loop_all_fail:
  assumes "NewRequestWithContext nt (tags_url registry repo) = None"
    and "\<not> (authMethod = ''gcloud'' \<and> GCRAccessToken cfg = '''')"
    and "\<forall>k<Suc m. attempt_fails (ClientDo nt (length (requests w) + k)
            (build_request nt cfg registry repo authMethod))"
    and "MaxRetries cfg - i = int (Suc m)"
  shows "fst (retry_loop nt cfg registry repo authMethod i d resp w) =
           LoopReturn (last_failure (ClientDo nt (length (requests w) + m)
              (build_request nt cfg registry repo authMethod))) \<and>
         requests (snd (retry_loop nt cfg registry repo authMethod i d resp w)) =
           requests w @ replicate (Suc m) (build_request nt cfg registry repo authMethod) \<and>
         sleeps (snd (retry_loop nt cfg registry repo authMethod i d resp w)) =
           sleeps w @ map (\<lambda>k. d * 2 ^ k) [0..<m]"
  using assms(3,4)
proof (induction m arbitrary: i d resp w)
  case 0
  let ?req = "build_request nt cfg registry repo authMethod"
  from 0 have i: "i < MaxRetries cfg" "\<not> i < MaxRetries cfg - 1" by auto
  from 0 have f: "attempt_fails (ClientDo nt (length (requests w)) ?req)" by simp
  have "\<not> (attempt_fails (ClientDo nt (length (requests w)) ?req) \<and> i < MaxRetries cfg - 1)"
    using i by simp
  from retry_loop_last[OF i(1) assms(1,2) this, of d resp] f
  show ?case
    by (auto simp: attempt_fails_def last_failure_def split: sum.splits)
next
  case (Suc m)
  let ?req = "build_request nt cfg registry repo authMethod"
  from Suc.prems have i: "i < MaxRetries cfg - 1" by auto
  from Suc.prems have f: "attempt_fails (ClientDo nt (length (requests w)) ?req)"
    by (metis add.right_neutral zero_less_Suc)
  from retry_loop_step[OF i assms(1,2) f, of d resp]
  obtain resp' and w' :: world where
    unf: "retry_loop nt cfg registry repo authMethod i d resp w =
          retry_loop nt cfg registry repo authMethod (i + 1) (d * 2) resp' w'"
    and w': "requests w' = requests w @ [?req]" "sleeps w' = sleeps w @ [d]" by blast
  have step: "\<forall>k<Suc m. attempt_fails (ClientDo nt (length (requests w') + k) ?req)"
  proof (intro allI impI)
    fix k assume "k < Suc m"
    then have "Suc k < Suc (Suc m)" by simp
    with Suc.prems(1) have "attempt_fails (ClientDo nt (length (requests w) + Suc k) ?req)"
      by blast
    with w' show "attempt_fails (ClientDo nt (length (requests w') + k) ?req)" by simp
  qed
  have m: "MaxRetries cfg - (i + 1) = int (Suc m)" using Suc.prems(2) by simp
  show ?case
    unfolding unf using Suc.IH[OF step m, of "d * 2" resp'] w' delays_shift[of d m]
    by (simp add: replicate_app_Cons_same del: upt_Suc)
qed

section \<open>Lemmas about the fetcher\<close>

lemma getRemoteTags_hit:
  "cache w (registry @ ''/'' @ repo) = Some tags \<Longrightarrow>
   getRemoteTags nt cfg registry repo authMethod w = (Return tags, w)"
  by (simp add: getRemoteTags_def)

lemma getRemoteTags_miss:
  "cache w (registry @ ''/'' @ repo) = None \<Longrightarrow>
   getRemoteTags nt cfg registry repo authMethod w =
   fetch_and_store nt cfg registry repo authMethod w"
  by (simp add: getRemoteTags_def)

lemma getRemoteTags_after_lookup:
  "getRemoteTags nt cfg registry repo authMethod w =
   continue_after_lookup nt cfg registry repo authMethod (cache w (registry @ ''/'' @ repo)) w"
  by (simp add: getRemoteTags_def continue_after_lookup_def)

lemma fetch_and_store_effect:
  assumes "fetch_and_store nt cfg registry repo authMethod w = (r, w')"
  shows "ticks w' = ticks w \<and> results w' = results w \<and>
         (case r of
            Return tags \<Rightarrow> cache w' = (cache w)(registry @ ''/'' @ repo \<mapsto> tags)
          | Error e \<Rightarrow> cache w' = cache w
          | Panic \<Rightarrow> cache w' = cache w)"
proof -
  obtain x w1 where L: "retry_loop nt cfg registry repo authMethod 0 (RetryDelay cfg) None w = (x, w1)"
    by (cases "retry_loop nt cfg registry repo authMethod 0 (RetryDelay cfg) None w")
  from retry_loop_frame[of nt cfg registry repo authMethod 0 "RetryDelay cfg" None w] L
  have fr: "cache w1 = cache w" "ticks w1 = ticks w" "results w1 = results w" by simp_all
  from assms L fr show ?thesis
    by (auto simp: fetch_and_store_def split: loop_exit.splits option.splits sum.splits)
qed

lemma getRemoteTags_effect:
  assumes "getRemoteTags nt cfg registry repo authMethod w = (r, w')"
  shows "ticks w' = ticks w \<and> results w' = results w \<and>
         (case r of
            Return tags \<Rightarrow> cache w' = (cache w)(registry @ ''/'' @ repo \<mapsto> tags)
          | Error e \<Rightarrow> cache w' = cache w
          | Panic \<Rightarrow> cache w' = cache w)"
proof (cases "cache w (registry @ ''/'' @ repo)")
  case None
  with assms fetch_and_store_effect show ?thesis by (simp add: getRemoteTags_miss)
next
  case (Some tags)
  with assms have "r = Return tags" "w' = w" by (simp_all add: getRemoteTags_hit)
  with Some show ?thesis by (simp add: map_upd_triv)
qed

lemma fetch_and_store_panic:
  "fst (fetch_and_store nt cfg registry repo authMethod w) = Panic \<longleftrightarrow> MaxRetries cfg \<le> 0"
proof (cases "0 < MaxRetries cfg")
  case True
  obtain x w1 where L: "retry_loop nt cfg registry repo authMethod 0 (RetryDelay cfg) None w = (x, w1)"
    by (cases "retry_loop nt cfg registry repo authMethod 0 (RetryDelay cfg) None w")
  with retry_loop_resp_not_nil[OF True, of nt registry repo authMethod "RetryDelay cfg" None w]
  have "x \<noteq> LoopDone None" by simp
  with L True show ?thesis
    by (auto simp: fetch_and_store_def split: loop_exit.splits option.splits sum.splits)
next
  case False
  then show ?thesis
    by (simp add: fetch_and_store_def retry_loop_not_entered)
qed

lemma fetch_and_store_no_loop:
  "MaxRetries cfg \<le> 0 \<Longrightarrow> fetch_and_store nt cfg registry repo authMethod w = (Panic, w)"
  by (simp add: fetch_and_store_def retry_loop_not_entered)



section \<open>The retry policy and the missing token\<close>

text \<open>
  What the retry loop does against an endpoint that fails every time, when a token is
  configured if the scheme asks for one, the request can be built and \<^verbatim>\<open>MaxRetries\<close> is
  at least 1: \<^verbatim>\<open>MaxRetries\<close> requests, all the same, \<^verbatim>\<open>MaxRetries - 1\<close> sleeps, the
  first of \<^verbatim>\<open>RetryDelay\<close> and each later one of twice the one before (a 64-bit product,
  as in Go), and the "max retries exceeded" error that wraps the error or the status
  code of the last attempt. The cache is as before.
\<close>

lemma retry_exhaustion:
  assumes "cache w (registry @ ''/'' @ repo) = None"
    and "\<not> (authMethod = ''gcloud'' \<and> GCRAccessToken cfg = '''')"
    and "NewRequestWithContext nt (tags_url registry repo) = None"
    and "1 \<le> MaxRetries cfg"
    and "\<forall>n. attempt_fails (ClientDo nt n (build_request nt cfg registry repo authMethod))"
  shows "\<exists>e w'. getRemoteTags nt cfg registry repo authMethod w = (Error e, w') \<and>
     e = last_failure (ClientDo nt (length (requests w) + nat (MaxRetries cfg) - 1)
           (build_request nt cfg registry repo authMethod)) \<and>
     take 20 (error_message e) = ''max retries exceeded'' \<and>
     requests w' = requests w @
        replicate (nat (MaxRetries cfg)) (build_request nt cfg registry repo authMethod) \<and>
     sleeps w' = sleeps w @ map (\<lambda>k. RetryDelay cfg * 2 ^ k) [0..<nat (MaxRetries cfg) - 1] \<and>
     cache w' = cache w"
proof -
  let ?req = "build_request nt cfg registry repo authMethod"
  let ?L = "retry_loop nt cfg registry repo authMethod 0 (RetryDelay cfg) None w"
  obtain m where m: "nat (MaxRetries cfg) = Suc m"
    using assms(4) by (cases "nat (MaxRetries cfg)") auto
  then have M: "MaxRetries cfg - 0 = int (Suc m)" by linarith
  have f: "\<forall>k<Suc m. attempt_fails (ClientDo nt (length (requests w) + k) ?req)"
    using assms(5) by blast
  from retry_loop_all_fail[OF assms(3) assms(2) f M, of "RetryDelay cfg" None]
  have L: "fst ?L = LoopReturn (last_failure (ClientDo nt (length (requests w) + m) ?req))"
    "requests (snd ?L) = requests w @ replicate (Suc m) ?req"
    "sleeps (snd ?L) = sleeps w @ map (\<lambda>k. RetryDelay cfg * 2 ^ k) [0..<m]"
    by simp_all
  have c: "cache (snd ?L) = cache w" by (simp add: retry_loop_frame)
  have g: "getRemoteTags nt cfg registry repo authMethod w =
      (Error (last_failure (ClientDo nt (length (requests w) + m) ?req)), snd ?L)"
    using L(1) assms(1)
    by (cases ?L) (simp add: getRemoteTags_miss fetch_and_store_def)
  have t: "take 20 (error_message (last_failure (ClientDo nt (length (requests w) + m) ?req)))
      = ''max retries exceeded''"
    by (simp add: last_failure_def split: sum.splits)
  show ?thesis
    using g t L(2,3) c m by simp
qed

text \<open>
  Claim C2: against an endpoint that fails on every attempt the fetcher retries exactly
  \<^verbatim>\<open>MaxRetries\<close> times, sleeping \<^verbatim>\<open>RetryDelay\<close> before the first retry and twice the
  delay before each later one, and then fails with "max retries exceeded". The program
  does one retry less. Its loop counts attempts: with the documented defaults
  (\<^verbatim>\<open>max_retries: 3\<close>, "Maximum number of retries for network errors", one second) and
  every request timing out it sends three requests, which are two retries, logged by the
  program itself as \<^verbatim>\<open>Retry 1\<close> and \<^verbatim>\<open>Retry 2\<close>, after sleeps of one and two seconds, and
  fails; there is no third retry and no sleep of four seconds. With \<^verbatim>\<open>max_retries: 1\<close>
  it sends one request and never retries.
\<close>

theorem C2_one_retry_less_than_max_retries:
  "getRemoteTags net_down default_config ''gcr.io'' ''proj/app'' ''gcloud'' empty_world =
     (Error (ErrMaxRetriesFetch ''context deadline exceeded''),
      empty_world
        \<lparr>requests :=
           replicate 3 (build_request net_down default_config ''gcr.io'' ''proj/app'' ''gcloud''),
         sleeps := [1000000000, 2000000000],
         logs := [LogRetry 1 1000000000 (Some ''context deadline exceeded''),
                  LogRetry 2 2000000000 (Some ''context deadline exceeded'')]\<rparr>) \<and>
   getRemoteTags net_down (default_config\<lparr>MaxRetries := 1\<rparr>) ''gcr.io'' ''proj/app''
       ''gcloud'' empty_world =
     (Error (ErrMaxRetriesFetch ''context deadline exceeded''),
      empty_world
        \<lparr>requests :=
           [build_request net_down (default_config\<lparr>MaxRetries := 1\<rparr>) ''gcr.io'' ''proj/app''
              ''gcloud'']\<rparr>)"
  by (simp add: getRemoteTags_def fetch_and_store_def retry_loop.simps net_down_def
      default_config_def empty_world_def tags_url_def build_request_def numeral_3_eq_3)

text \<open>
  Claim C5, as amended. On an uncached key, with the scheme \<^verbatim>\<open>"gcloud"\<close>, an empty
  token and \<^verbatim>\<open>MaxRetries\<close> at least 1, the call returns in its first iteration and
  leaves the world as it was: no request sent, no sleep, no log line, no cache entry.
  The error is the token error when the request could be built; the request is built
  before the token is looked at, so when \<^verbatim>\<open>http.NewRequestWithContext\<close> fails the error
  is that one instead.
\<close>

theorem C5_missing_token_fails_before_any_request:
  assumes "cache w (registry @ ''/'' @ repo) = None"
    and "GCRAccessToken cfg = ''''"
    and "1 \<le> MaxRetries cfg"
  shows "getRemoteTags nt cfg registry repo ''gcloud'' w =
     ((case NewRequestWithContext nt (tags_url registry repo) of
         None \<Rightarrow> Error ErrTokenNotSet
       | Some e \<Rightarrow> Error (ErrCreateRequest e)), w)"
proof -
  have "0 < MaxRetries cfg" using assms(3) by simp
  from retry_loop_no_token[OF assms(2) this] assms(1) show ?thesis
    by (simp add: getRemoteTags_miss fetch_and_store_def split: option.splits)
qed

theorem C5_witness:
  "getRemoteTags net_up (default_config\<lparr>GCRAccessToken := ''''\<rparr>) ''gcr.io'' ''team/api''
     ''gcloud'' empty_world = (Error ErrTokenNotSet, empty_world)"
proof -
  have 1: "cache empty_world (''gcr.io'' @ ''/'' @ ''team/api'') = None"
    by (simp add: empty_world_def)
  have 2: "GCRAccessToken (default_config\<lparr>GCRAccessToken := ''''\<rparr>) = ''''"
    by simp
  have 3: "1 \<le> MaxRetries (default_config\<lparr>GCRAccessToken := ''''\<rparr>)"
    by (simp add: default_config_def)
  from C5_missing_token_fails_before_any_request[OF 1 2 3, of net_up]
  show ?thesis by (simp add: net_up_def)
qed

text \<open>
  The claim as stated fails at a registry whose URL the HTTP library refuses (here a
  host that starts with a digit and carries a port, with no scheme): the call fails
  with the error of building the request, not with the token error.
\<close>

theorem C5_counterexample:
  "getRemoteTags net_bad_url (default_config\<lparr>GCRAccessToken := ''''\<rparr>) ''127.0.0.1:5000''
     ''proj/app'' ''gcloud'' empty_world =
   (Error (ErrCreateRequest ''first path segment in URL cannot contain colon''), empty_world)"
  by (simp add: getRemoteTags_def fetch_and_store_def retry_loop.simps net_bad_url_def
      default_config_def empty_world_def tags_url_def)

section \<open>Errors and the cache\<close>

text \<open>
  Claim C9. A call of the fetcher that returns an error leaves the tag cache as it
  was. More generally, whatever a call returns, an entry that is in the cache after it
  was there before, or is the entry of the requested key holding the tag list that the
  call returned: the cache holds only tag lists of fetches that succeeded and decoded.
\<close>

theorem C9_error_leaves_cache_unchanged:
  assumes "getRemoteTags nt cfg registry repo authMethod w = (r, w')"
  shows "(\<forall>e. r = Error e \<longrightarrow> cache w' = cache w) \<and>
         (\<forall>key tags. cache w' key = Some tags \<longrightarrow>
            cache w key = Some tags \<or> (key = registry @ ''/'' @ repo \<and> r = Return tags))"
  using getRemoteTags_effect[OF assms]
  by (cases r) (auto split: if_splits)

theorem C9_witness:
  "getRemoteTags net_down default_config ''gcr.io'' ''proj/web'' ''gcloud'' empty_world =
     (Error (ErrMaxRetriesFetch ''context deadline exceeded''),
      snd (getRemoteTags net_down default_config ''gcr.io'' ''proj/web'' ''gcloud'' empty_world)) \<and>
   cache (snd (getRemoteTags net_down default_config ''gcr.io'' ''proj/web'' ''gcloud'' empty_world))
     = cache empty_world"
proof -
  have e: "getRemoteTags net_down default_config ''gcr.io'' ''proj/web'' ''gcloud'' empty_world =
     (Error (ErrMaxRetriesFetch ''context deadline exceeded''),
      snd (getRemoteTags net_down default_config ''gcr.io'' ''proj/web'' ''gcloud'' empty_world))"
    by (simp add: getRemoteTags_def fetch_and_store_def retry_loop.simps net_down_def
        default_config_def empty_world_def tags_url_def build_request_def)
  from C9_error_leaves_cache_unchanged[OF e] e show ?thesis by simp
qed

section \<open>The nil response\<close>

text \<open>
  Claim C10. On an uncached key the call panics, dereferencing the nil \<^verbatim>\<open>resp\<close> after
  the loop, exactly when \<^verbatim>\<open>MaxRetries\<close> is at most 0: then the loop body never runs and
  nothing else has happened; with \<^verbatim>\<open>MaxRetries\<close> at least 1 the loop is left only with a
  response or by a return. The defaults of \<^verbatim>\<open>loadConfig\<close> replace a \<^verbatim>\<open>MaxRetries\<close> of 0 by
  3 and keep every other value, so a negative value reaches the fetcher.
\<close>

theorem C10_max_retries_precondition:
  assumes "cache w (registry @ ''/'' @ repo) = None"
  shows "(fst (getRemoteTags nt cfg registry repo authMethod w) = Panic) = (MaxRetries cfg \<le> 0) \<and>
         (if MaxRetries cfg \<le> 0
          then getRemoteTags nt cfg registry repo authMethod w = (Panic, w)
          else fst (getRemoteTags nt cfg registry repo authMethod w) \<noteq> Panic) \<and>
         MaxRetries (set_defaults c) = (if MaxRetries c = 0 then 3 else MaxRetries c)"
  using assms
  by (simp add: getRemoteTags_miss fetch_and_store_panic fetch_and_store_no_loop
      set_defaults_def Let_def)

theorem C10_witness:
  "MaxRetries (set_defaults (default_config\<lparr>MaxRetries := - 1\<rparr>)) = - 1 \<and>
   getRemoteTags net_up (set_defaults (default_config\<lparr>MaxRetries := - 1\<rparr>)) ''gcr.io''
     ''proj/app'' ''gcloud'' empty_world = (Panic, empty_world) \<and>
   fst (getRemoteTags net_up (set_defaults (default_config\<lparr>MaxRetries := 0\<rparr>)) ''gcr.io''
     ''proj/app'' ''gcloud'' empty_world) \<noteq> Panic"
proof -
  have 1: "cache empty_world (''gcr.io'' @ ''/'' @ ''proj/app'') = None"
    by (simp add: empty_world_def)
  have a: "MaxRetries (set_defaults (default_config\<lparr>MaxRetries := - 1\<rparr>)) = - 1"
    using C10_max_retries_precondition[OF 1, of net_up default_config "''gcloud''"
        "default_config\<lparr>MaxRetries := - 1\<rparr>"]
    by simp
  have b: "MaxRetries (set_defaults (default_config\<lparr>MaxRetries := 0\<rparr>)) = 3"
    using C10_max_retries_precondition[OF 1, of net_up default_config "''gcloud''"
        "default_config\<lparr>MaxRetries := 0\<rparr>"]
    by simp
  from C10_max_retries_precondition[OF 1, of net_up
      "set_defaults (default_config\<lparr>MaxRetries := - 1\<rparr>)" "''gcloud''" default_config]
    C10_max_retries_precondition[OF 1, of net_up
      "set_defaults (default_config\<lparr>MaxRetries := 0\<rparr>)" "''gcloud''" default_config]
    a b
  show ?thesis by simp
qed

section \<open>Image names\<close>

text \<open>
  Claim C7: parsing a line gives the first path segment as registry, what follows the
  colon of the last segment as tag, and everything between as repository; lines that
  cannot be parsed are logged and skipped. The program breaks this on a name of two
  segments: it joins the (then empty) middle segments and always appends a slash and
  the name, so \<^verbatim>\<open>registry.example.com/app:1.0.0\<close> gets the repository \<^verbatim>\<open>/app\<close>, not
  \<^verbatim>\<open>app\<close>. With three segments the repository is right, and a bare \<^verbatim>\<open>nginx:1.25.0\<close> is
  logged and skipped while the enumeration goes on.
\<close>

theorem C7_two_segment_name_gets_a_leading_slash:
  "parseImageName ''registry.example.com/app:1.0.0'' =
     Return \<lparr>Registry = ''registry.example.com'', Repo = ''/app'', Tag = ''1.0.0''\<rparr> \<and>
   parseImageName ''gcr.io/proj/app:1.0.0'' =
     Return \<lparr>Registry = ''gcr.io'', Repo = ''proj/app'', Tag = ''1.0.0''\<rparr> \<and>
   parse_lines [''nginx:1.25.0'', ''gcr.io/proj/app:1.0.0''] [] [] =
     ([\<lparr>Registry = ''gcr.io'', Repo = ''proj/app'', Tag = ''1.0.0''\<rparr>],
      [LogParseError ''nginx:1.25.0'' ErrInvalidImageName])"
  by (simp add: parseImageName_def slice_def)

section \<open>Two checks of one key\<close>


section \<open>The cache and the rate limiter\<close>





section \<open>Repeated calls for one key\<close>




section \<open>A local tag that is no version\<close>

text \<open>
  Claim C8, as amended. The checker fetches the remote tags before it parses the local
  tag. So for an image whose local tag is no semantic version the check fails, with
  "error parsing current version" around the parser's error if the tags were obtained
  (from the cache or the registry), and with "error getting remote tags" around the
  fetcher's error if they were not. In both cases the goroutine logs the error for that
  image, sends no result and finishes, so the run goes on. The fetcher's panic on a
  \<^verbatim>\<open>MaxRetries\<close> below 1 is left out: it would end the process.
\<close>

theorem C8_unparsable_tag_fails_that_check_only:
  assumes "NewVersion sv (Tag img) = Inl perr"
    and "getRemoteTags nt cfg (Registry img) (Repo img) ''gcloud'' (w\<lparr>ticks := ticks w + 1\<rparr>)
           = (r, w1)"
    and "r \<noteq> Panic"
  shows "\<exists>e. checkForUpdates nt sv cfg img (w\<lparr>ticks := ticks w + 1\<rparr>) = (Error e, w1) \<and>
     e = (case r of Error ferr \<Rightarrow> ErrGettingRemoteTags ferr
                  | Return remoteTags \<Rightarrow> ErrParsingCurrentVersion perr
                  | Panic \<Rightarrow> ErrParsingCurrentVersion perr) \<and>
     (case r of Error ferr \<Rightarrow> True
              | Return remoteTags \<Rightarrow>
                  error_message e = ''error parsing current version: '' @ perr
              | Panic \<Rightarrow> True) \<and>
     check_task nt sv cfg img w =
       (Finished, w1\<lparr>logs := logs w1 @ [LogCheckError (Repo img) e]\<rparr>) \<and>
     results w1 = results w \<and> ticks w1 = ticks w + 1"
proof -
  from getRemoteTags_effect[OF assms(2)]
  have fr: "results w1 = results w" "ticks w1 = ticks w + 1" by simp_all
  show ?thesis
    using assms fr
    by (cases r) (simp_all add: checkForUpdates_def check_task_def)
qed

theorem C8_witness:
  "check_task net_up small_semver default_config (app_image ''latest'') empty_world =
     (Finished,
      empty_world\<lparr>ticks := 1, requests := [app_request],
                  cache := [''gcr.io/proj/app'' \<mapsto> [''1.0.0'', ''1.0.1'', ''abc'']],
                  logs := [LogCheckError ''proj/app''
                             (ErrParsingCurrentVersion ''Invalid Semantic Version'')]\<rparr>)"
proof -
  have 1: "NewVersion small_semver (Tag (app_image ''latest'')) = Inl ''Invalid Semantic Version''"
    by (simp add: small_semver_def app_image_def)
  have 2: "getRemoteTags net_up default_config (Registry (app_image ''latest''))
        (Repo (app_image ''latest'')) ''gcloud'' (empty_world\<lparr>ticks := ticks empty_world + 1\<rparr>) =
      (Return [''1.0.0'', ''1.0.1'', ''abc''],
       empty_world\<lparr>ticks := 1, requests := [app_request],
                   cache := [''gcr.io/proj/app'' \<mapsto> [''1.0.0'', ''1.0.1'', ''abc'']]\<rparr>)"
    by (simp add: getRemoteTags_def fetch_and_store_def retry_loop.simps net_up_def
        default_config_def empty_world_def tags_url_def build_request_def tags_body_def
        app_request_def app_image_def)
  have 3: "Return [''1.0.0'', ''1.0.1'', ''abc''] \<noteq> (Panic :: string list result)" by simp
  have 4: "logs empty_world = []" by (simp add: empty_world_def)
  from C8_unparsable_tag_fails_that_check_only[OF 1 2 3]
  show ?thesis by (simp add: app_image_def 4)
qed

text \<open>
  The claim as stated fails when the registry cannot be reached: the local tag
  \<^verbatim>\<open>latest\<close> is no version, and the error of the check is that of the fetcher.
\<close>

theorem C8_counterexample:
  "NewVersion small_semver (Tag (app_image ''latest'')) = Inl ''Invalid Semantic Version'' \<and>
   check_task net_down small_semver default_config (app_image ''latest'') empty_world =
     (Finished,
      empty_world\<lparr>ticks := 1,
        requests := [app_request, app_request, app_request],
        sleeps := [1000000000, 2000000000],
        logs := [LogRetry 1 1000000000 (Some ''context deadline exceeded''),
                 LogRetry 2 2000000000 (Some ''context deadline exceeded''),
                 LogCheckError ''proj/app''
                   (ErrGettingRemoteTags (ErrMaxRetriesFetch ''context deadline exceeded''))]\<rparr>) \<and>
   error_message (ErrGettingRemoteTags (ErrMaxRetriesFetch ''context deadline exceeded'')) =
     ''error getting remote tags: max retries exceeded: error fetching tags: context deadline exceeded''"
  by (simp add: check_task_def checkForUpdates_def getRemoteTags_def fetch_and_store_def
      retry_loop.simps net_down_def default_config_def empty_world_def tags_url_def
      build_request_def app_request_def app_image_def small_semver_def)

section \<open>Lemmas about the version loop\<close>











section \<open>The comparison of versions\<close>



end
